theory Spec2Isabelle
  imports Complex_Main
begin

section \<open>Binary64 numbers\<close>

text \<open>
  A JavaScript number is an IEEE-754 binary64 value. Every arithmetic operation of the
  statistics functions computes the exact real result and rounds it to the nearest
  binary64 value, ties to the even significand; a result whose rounded magnitude
  reaches \<open>2^1024\<close> overflows to an infinity.

  \<open>ulp_exponent x\<close> is the exponent of the last place of the binary64 values around
  \<open>x\<close>: 52 below the binary exponent of \<open>x\<close>, and never below -1074, where the
  subnormal numbers start. \<open>round_binary64 x\<close> is the multiple of \<open>2 powi ulp_exponent x\<close>
  nearest to \<open>x\<close>.
\<close>

definition binary_exponent :: "real \<Rightarrow> int" where
  "binary_exponent x = \<lfloor>log 2 \<bar>x\<bar>\<rfloor>"

definition ulp_exponent :: "real \<Rightarrow> int" where
  "ulp_exponent x = max (binary_exponent x - 52) (- 1074)"

definition round_half_even :: "real \<Rightarrow> int" where
  "round_half_even t =
     (let f = \<lfloor>t\<rfloor>; d = t - of_int f
      in if d < 1 / 2 then f else if d > 1 / 2 then f + 1
         else if even f then f else f + 1)"

definition round_binary64 :: "real \<Rightarrow> real" where
  "round_binary64 x = (if x = 0 then 0
     else of_int (round_half_even (x / 2 powi ulp_exponent x)) * 2 powi ulp_exponent x)"

text \<open>
  The finite binary64 values: an integer significand below \<open>2^53\<close> in magnitude, times a
  power of two with an exponent from -1074 to 971.
\<close>

definition is_binary64 :: "real \<Rightarrow> bool" where
  "is_binary64 y = (\<exists>m e. y = of_int m * 2 powi e \<and> \<bar>m\<bar> < 2 ^ 53 \<and> - 1074 \<le> e \<and> e \<le> 971)"

section \<open>JavaScript values and arithmetic\<close>

text \<open>
  The routes feed the statistics functions values read out of dataset records, where a
  field can be a number, \<^verbatim>\<open>null\<close> or missing (\<^verbatim>\<open>undefined\<close>), and arithmetic adds the
  infinities and NaN. \<open>Num x\<close> is the finite number with the real value \<open>x\<close>. The two
  zeros are one value here: the functions below never divide by a zero and never look
  at its sign. Strings are not dataset values here.
\<close>

datatype jsval = Num real | Infinity | NegInfinity | NaN | Null | Undefined

text \<open>The binary64 value of an exact result, and of a decimal literal of the source.\<close>

definition binary64 :: "real \<Rightarrow> jsval" where
  "binary64 x =
     (let y = round_binary64 x
      in if 2 ^ 1024 \<le> y then Infinity
         else if y \<le> - (2 ^ 1024) then NegInfinity
         else Num y)"

text \<open>\<^verbatim>\<open>ToNumber\<close>: \<^verbatim>\<open>null\<close> is 0, \<^verbatim>\<open>undefined\<close> is NaN.\<close>

fun to_number :: "jsval \<Rightarrow> jsval" where
  "to_number Null = Num 0"
| "to_number Undefined = NaN"
| "to_number v = v"

fun num_neg :: "jsval \<Rightarrow> jsval" where
  "num_neg (Num x) = Num (- x)"
| "num_neg Infinity = NegInfinity"
| "num_neg NegInfinity = Infinity"
| "num_neg v = NaN"

fun num_add :: "jsval \<Rightarrow> jsval \<Rightarrow> jsval" where
  "num_add (Num x) (Num y) = binary64 (x + y)"
| "num_add (Num x) Infinity = Infinity"
| "num_add (Num x) NegInfinity = NegInfinity"
| "num_add Infinity (Num y) = Infinity"
| "num_add Infinity Infinity = Infinity"
| "num_add NegInfinity (Num y) = NegInfinity"
| "num_add NegInfinity NegInfinity = NegInfinity"
| "num_add a b = NaN"

fun num_mul :: "jsval \<Rightarrow> jsval \<Rightarrow> jsval" where
  "num_mul (Num x) (Num y) = binary64 (x * y)"
| "num_mul (Num x) Infinity = (if 0 < x then Infinity else if x < 0 then NegInfinity else NaN)"
| "num_mul (Num x) NegInfinity = (if 0 < x then NegInfinity else if x < 0 then Infinity else NaN)"
| "num_mul Infinity (Num y) = (if 0 < y then Infinity else if y < 0 then NegInfinity else NaN)"
| "num_mul NegInfinity (Num y) = (if 0 < y then NegInfinity else if y < 0 then Infinity else NaN)"
| "num_mul Infinity Infinity = Infinity"
| "num_mul Infinity NegInfinity = NegInfinity"
| "num_mul NegInfinity Infinity = NegInfinity"
| "num_mul NegInfinity NegInfinity = Infinity"
| "num_mul a b = NaN"

text \<open>
  A finite number divided by zero gives an infinity whose sign depends on the sign of
  the zero, which the model does not keep; it answers as for a positive zero. No
  function below divides by zero: every divisor is a non-zero length, the literal 2, or
  a denominator tested against 0 first.
\<close>

fun num_div :: "jsval \<Rightarrow> jsval \<Rightarrow> jsval" where
  "num_div (Num x) (Num y) =
     (if y = 0 then (if x = 0 then NaN else if 0 < x then Infinity else NegInfinity)
      else binary64 (x / y))"
| "num_div (Num x) Infinity = Num 0"
| "num_div (Num x) NegInfinity = Num 0"
| "num_div Infinity (Num y) = (if 0 \<le> y then Infinity else NegInfinity)"
| "num_div NegInfinity (Num y) = (if 0 \<le> y then NegInfinity else Infinity)"
| "num_div a b = NaN"

definition js_add :: "jsval \<Rightarrow> jsval \<Rightarrow> jsval" where
  "js_add a b = num_add (to_number a) (to_number b)"

definition js_sub :: "jsval \<Rightarrow> jsval \<Rightarrow> jsval" where
  "js_sub a b = num_add (to_number a) (num_neg (to_number b))"

definition js_mul :: "jsval \<Rightarrow> jsval \<Rightarrow> jsval" where
  "js_mul a b = num_mul (to_number a) (to_number b)"

definition js_div :: "jsval \<Rightarrow> jsval \<Rightarrow> jsval" where
  "js_div a b = num_div (to_number a) (to_number b)"

text \<open>\<^verbatim>\<open>Math.sqrt\<close>, correctly rounded; NaN on a negative argument.\<close>

definition math_sqrt :: "jsval \<Rightarrow> jsval" where
  "math_sqrt a = (case to_number a of
       Num x \<Rightarrow> if x < 0 then NaN else binary64 (sqrt x)
     | Infinity \<Rightarrow> Infinity
     | _ \<Rightarrow> NaN)"

definition math_abs :: "jsval \<Rightarrow> jsval" where
  "math_abs a = (case to_number a of
       Num x \<Rightarrow> Num \<bar>x\<bar>
     | Infinity \<Rightarrow> Infinity
     | NegInfinity \<Rightarrow> Infinity
     | _ \<Rightarrow> NaN)"

text \<open>Relational operators: any comparison with NaN is false.\<close>

fun num_le :: "jsval \<Rightarrow> jsval \<Rightarrow> bool" where
  "num_le (Num x) (Num y) = (x \<le> y)"
| "num_le NegInfinity (Num y) = True"
| "num_le NegInfinity NegInfinity = True"
| "num_le NegInfinity Infinity = True"
| "num_le (Num x) Infinity = True"
| "num_le Infinity Infinity = True"
| "num_le a b = False"

fun num_less :: "jsval \<Rightarrow> jsval \<Rightarrow> bool" where
  "num_less (Num x) (Num y) = (x < y)"
| "num_less NegInfinity (Num y) = True"
| "num_less NegInfinity Infinity = True"
| "num_less (Num x) Infinity = True"
| "num_less a b = False"

definition js_ge :: "jsval \<Rightarrow> jsval \<Rightarrow> bool" where
  "js_ge a b = num_le (to_number b) (to_number a)"

definition js_le :: "jsval \<Rightarrow> jsval \<Rightarrow> bool" where
  "js_le a b = num_le (to_number a) (to_number b)"

definition js_gt :: "jsval \<Rightarrow> jsval \<Rightarrow> bool" where
  "js_gt a b = num_less (to_number b) (to_number a)"

text \<open>
  Two kinds of results: a number or an infinity (not NaN, \<^verbatim>\<open>null\<close> or \<^verbatim>\<open>undefined\<close>), and
  among these the ones that are not below zero.
\<close>

definition extended :: "jsval \<Rightarrow> bool" where
  "extended v = (case v of Num x \<Rightarrow> True | Infinity \<Rightarrow> True | NegInfinity \<Rightarrow> True | _ \<Rightarrow> False)"

definition nonnegative :: "jsval \<Rightarrow> bool" where
  "nonnegative v = (case v of Num x \<Rightarrow> 0 \<le> x | Infinity \<Rightarrow> True | _ \<Rightarrow> False)"

text \<open>
  An uncaught exception of a route handler and the handlers' own error responses.
\<close>

datatype error =
    TypeError
  | DatasetNotFound
  | ParamRequired
  | ParamNotAvailable
  | NoDataInRange
  | Param1Param2Required
  | ParametersMustBeIn

text \<open>
  \<^verbatim>\<open>Number(v.toFixed(6))\<close>. Calling a method on \<^verbatim>\<open>null\<close> or \<^verbatim>\<open>undefined\<close> throws;
  \<^verbatim>\<open>toFixed\<close> prints NaN and the infinities by name, and \<^verbatim>\<open>Number\<close> reads them back.
  For a finite number, \<^verbatim>\<open>toFixed\<close> takes the absolute value, picks the integer \<open>n\<close>
  with \<open>n / 10^6\<close> nearest to it (the larger one on a tie), and puts the sign back; from
  \<open>10^21\<close> on it prints the number itself. \<^verbatim>\<open>Number\<close> then reads the decimal as the
  nearest binary64 value.
\<close>

definition round6 :: "real \<Rightarrow> real" where
  "round6 x = (if \<bar>x\<bar> \<ge> 10 ^ 21 then x
     else sgn x * real_of_int \<lfloor>\<bar>x\<bar> * 10 ^ 6 + 1 / 2\<rfloor> / 10 ^ 6)"

fun number_toFixed6 :: "jsval \<Rightarrow> error + jsval" where
  "number_toFixed6 (Num x) = Inr (binary64 (round6 x))"
| "number_toFixed6 Infinity = Inr Infinity"
| "number_toFixed6 NegInfinity = Inr NegInfinity"
| "number_toFixed6 NaN = Inr NaN"
| "number_toFixed6 Null = Inl TypeError"
| "number_toFixed6 Undefined = Inl TypeError"

section \<open>Utility stats functions\<close>

definition mean :: "jsval list \<Rightarrow> jsval" where
  "mean arr = (if length arr = 0 then Null
     else let s = foldl (\<lambda>a b. js_add a b) (Num 0) arr
          in js_div s (Num (real (length arr))))"



text \<open>
  \<^verbatim>\<open>arr.slice(start, end)\<close> for non-negative integer bounds: the elements from
  \<open>start\<close> up to but excluding \<open>end\<close>, empty when \<open>start \<ge> end\<close>.
\<close>

definition slice :: "'a list \<Rightarrow> nat \<Rightarrow> nat \<Rightarrow> 'a list" where
  "slice arr start end = take (end - start) (drop start arr)"

text \<open>
  The window size reaches \<^verbatim>\<open>movingAverage\<close> as the result of \<^verbatim>\<open>parseInt\<close>: an
  integer, or NaN (\<open>None\<close>); the default 7 of the parameter is for a caller that
  passes nothing, and the route always passes a value. \<^verbatim>\<open>Math.max(0, NaN)\<close> is NaN
  and \<^verbatim>\<open>slice\<close> reads a NaN start as 0.
\<close>

definition window_start :: "int option \<Rightarrow> nat \<Rightarrow> nat" where
  "window_start windowSize i = (case windowSize of None \<Rightarrow> 0
     | Some w \<Rightarrow> nat (max 0 (int i - w + 1)))"

text \<open>
  One iteration of the loop of \<^verbatim>\<open>movingAverage\<close>; \<^verbatim>\<open>mean(slice).toFixed(6)\<close>
  throws when the slice is empty, because \<^verbatim>\<open>mean\<close> returns \<^verbatim>\<open>null\<close> then.
\<close>

definition movingAverage_step :: "jsval list \<Rightarrow> int option \<Rightarrow> nat \<Rightarrow> jsval list \<Rightarrow> error + jsval list" where
  "movingAverage_step arr windowSize i out =
     (let start = window_start windowSize i;
          sl = slice arr start (i + 1)
      in case number_toFixed6 (mean sl) of
           Inl e \<Rightarrow> Inl e
         | Inr v \<Rightarrow> Inr (out @ [v]))"

definition movingAverage :: "jsval list \<Rightarrow> int option \<Rightarrow> error + jsval list" where
  "movingAverage arr windowSize =
     fold (\<lambda>i acc. case acc of Inl e \<Rightarrow> Inl e
                    | Inr out \<Rightarrow> movingAverage_step arr windowSize i out)
          [0..<length arr] (Inr [])"

text \<open>\<^verbatim>\<open>x[i]\<close>: \<^verbatim>\<open>undefined\<close> past the end of the array.\<close>

definition js_index :: "jsval list \<Rightarrow> nat \<Rightarrow> jsval" where
  "js_index xs i = (if i < length xs then xs ! i else Undefined)"

definition pearson_step :: "jsval list \<Rightarrow> jsval list \<Rightarrow> jsval \<Rightarrow> jsval \<Rightarrow> nat
    \<Rightarrow> jsval \<times> jsval \<times> jsval \<Rightarrow> jsval \<times> jsval \<times> jsval" where
  "pearson_step x y mx my i acc =
     (case acc of (num, denx, deny) \<Rightarrow>
        let dx = js_sub (js_index x i) mx;
            dy = js_sub (js_index y i) my
        in (js_add num (js_mul dx dy), js_add denx (js_mul dx dx), js_add deny (js_mul dy dy)))"

text \<open>The loop of \<^verbatim>\<open>pearson\<close>: \<open>num\<close>, \<open>denx\<close> and \<open>deny\<close> after the last iteration.\<close>

definition pearson_sums :: "jsval list \<Rightarrow> jsval list \<Rightarrow> jsval \<times> jsval \<times> jsval" where
  "pearson_sums x y =
     fold (pearson_step x y (mean x) (mean y)) [0..<length x] (Num 0, Num 0, Num 0)"

definition pearson :: "jsval list \<Rightarrow> jsval list \<Rightarrow> jsval" where
  "pearson x y = (if length x \<noteq> length y \<or> length x = 0 then Null
     else case pearson_sums x y of (num, denx, deny) \<Rightarrow>
            let denom = math_sqrt (js_mul denx deny)
            in if denom = Num 0 then Num 0 else js_div num denom)"



section \<open>Dataset records and the date-range filter\<close>

text \<open>
  A record of a dataset has a \<^verbatim>\<open>date\<close> string and named fields, the parameters
  of the dataset. A field holds a number or \<^verbatim>\<open>null\<close> (\<open>Some None\<close>); reading a
  field the record does not have gives \<^verbatim>\<open>undefined\<close>.
\<close>

record dated_record =
  date :: string
  field :: "string \<rightharpoonup> real option"

definition get_field :: "dated_record \<Rightarrow> string \<Rightarrow> jsval" where
  "get_field s p = (case field s p of None \<Rightarrow> Undefined
     | Some None \<Rightarrow> Null
     | Some (Some v) \<Rightarrow> Num v)"

record dataset =
  parameters :: "string list"
  data :: "dated_record list"

text \<open>
  A query parameter is absent (\<open>None\<close>) or a string; \<^verbatim>\<open>!q\<close> holds for an absent
  and for an empty one.
\<close>

definition truthy :: "string option \<Rightarrow> bool" where
  "truthy q = (case q of None \<Rightarrow> False | Some s \<Rightarrow> s \<noteq> [])"

text \<open>
  A \<^verbatim>\<open>Date\<close> object is its time value: milliseconds since the epoch, or NaN for an
  invalid date (\<open>None\<close>). Parsing a string into a time value is the work of the
  JavaScript runtime, so \<^verbatim>\<open>new Date(string)\<close> is a parameter \<open>parse\<close> of the filter.
  \<^verbatim>\<open><\<close> and \<^verbatim>\<open>>\<close> on two dates compare the time values, and are false when either
  is NaN.
\<close>

type_synonym time_value = "int option"

definition date_lt :: "time_value \<Rightarrow> time_value \<Rightarrow> bool" where
  "date_lt a b = (case a of None \<Rightarrow> False
     | Some x \<Rightarrow> (case b of None \<Rightarrow> False | Some y \<Rightarrow> x < y))"

definition date_gt :: "time_value \<Rightarrow> time_value \<Rightarrow> bool" where
  "date_gt a b = (case a of None \<Rightarrow> False
     | Some x \<Rightarrow> (case b of None \<Rightarrow> False | Some y \<Rightarrow> x > y))"

text \<open>\<open>fromDate\<close> and \<open>toDate\<close> are a \<^verbatim>\<open>Date\<close> (\<open>Some\<close>) or \<^verbatim>\<open>null\<close> (\<open>None\<close>).\<close>

definition bound_date :: "(string \<Rightarrow> time_value) \<Rightarrow> string option \<Rightarrow> time_value option" where
  "bound_date parse q = (case q of None \<Rightarrow> None
     | Some s \<Rightarrow> if s = [] then None else Some (parse s))"

definition filterByDateRange ::
    "(string \<Rightarrow> time_value) \<Rightarrow> dated_record list \<Rightarrow> string option \<Rightarrow> string option
      \<Rightarrow> dated_record list" where
  "filterByDateRange parse series from to =
     (if \<not> truthy from \<and> \<not> truthy to then series
      else let fromDate = bound_date parse from;
               toDate = bound_date parse to
           in filter (\<lambda>s.
                let d = parse (date s @ ''T00:00:00Z'')
                in if (case fromDate of None \<Rightarrow> False | Some f \<Rightarrow> date_lt d f) then False
                   else if (case toDate of None \<Rightarrow> False | Some t \<Rightarrow> date_gt d t) then False
                   else True) series)"

section \<open>Routes\<close>

subsection \<open>Trends\<close>

record trend_point =
  tp_date :: string
  tp_value :: jsval
  tp_moving_average :: jsval

text \<open>
  \<^verbatim>\<open>series.map((s, idx) => ({ date, value, moving_average: Number(ma[idx].toFixed(6)) }))\<close>
\<close>

fun trend_points :: "string \<Rightarrow> jsval list \<Rightarrow> nat \<Rightarrow> dated_record list \<Rightarrow> error + trend_point list" where
  "trend_points param ma idx [] = Inr []"
| "trend_points param ma idx (s # rest) =
     (case number_toFixed6 (js_index ma idx) of
        Inl e \<Rightarrow> Inl e
      | Inr v \<Rightarrow> (case trend_points param ma (idx + 1) rest of
          Inl e \<Rightarrow> Inl e
        | Inr tps \<Rightarrow> Inr (\<lparr>tp_date = date s, tp_value = get_field s param,
                          tp_moving_average = v\<rparr> # tps)))"

text \<open>
  The handler of \<^verbatim>\<open>/api/datasets/:id/trends\<close>. \<open>ds\<close> is \<^verbatim>\<open>datasets[id]\<close>, \<open>param\<close>,
  \<open>from\<close> and \<open>to\<close> are the query parameters, and \<open>window\<close> is the value of
  \<^verbatim>\<open>parseInt(req.query.window || "7", 10)\<close>.
\<close>

definition trends_route ::
    "(string \<Rightarrow> time_value) \<Rightarrow> dataset option \<Rightarrow> string option \<Rightarrow> int option
      \<Rightarrow> string option \<Rightarrow> string option \<Rightarrow> error + trend_point list" where
  "trends_route parse ds param window from to =
     (case ds of None \<Rightarrow> Inl DatasetNotFound
      | Some ds \<Rightarrow>
     (case param of None \<Rightarrow> Inl ParamRequired
      | Some p \<Rightarrow>
        if p = [] then Inl ParamRequired
        else if p \<notin> set (parameters ds) then Inl ParamNotAvailable
        else let series = filterByDateRange parse (data ds) from to;
                 values = map (\<lambda>s. get_field s p) series
             in (case movingAverage values window of
                   Inl e \<Rightarrow> Inl e
                 | Inr ma \<Rightarrow> trend_points p ma 0 series)))"

subsection \<open>Correlation\<close>

text \<open>
  The cascade of the handler. The literals \<^verbatim>\<open>0.7\<close> and \<^verbatim>\<open>0.4\<close> are the binary64 values
  nearest to 7/10 and 2/5, and \<^verbatim>\<open>-0.7\<close> and \<^verbatim>\<open>-0.4\<close> are their negations.
\<close>

definition interpretation_label :: "jsval \<Rightarrow> string" where
  "interpretation_label r =
     (if js_ge r (binary64 (7 / 10)) then ''Strong positive correlation''
      else if js_ge r (binary64 (2 / 5)) then ''Moderate positive correlation''
      else if js_le r (num_neg (binary64 (7 / 10))) then ''Strong negative correlation''
      else if js_le r (num_neg (binary64 (2 / 5))) then ''Moderate negative correlation''
      else ''Weak or no correlation'')"

record correlation_result =
  cr_r :: jsval
  cr_interpretation :: string

text \<open>The handler of \<^verbatim>\<open>/api/datasets/:id/correlation\<close>.\<close>

definition correlation_route ::
    "(string \<Rightarrow> time_value) \<Rightarrow> dataset option \<Rightarrow> string option \<Rightarrow> string option
      \<Rightarrow> string option \<Rightarrow> string option \<Rightarrow> error + correlation_result" where
  "correlation_route parse ds param1 param2 from to =
     (case ds of None \<Rightarrow> Inl DatasetNotFound
      | Some ds \<Rightarrow>
        if \<not> truthy param1 \<or> \<not> truthy param2 then Inl Param1Param2Required
        else
     (case param1 of None \<Rightarrow> Inl Param1Param2Required
      | Some p1 \<Rightarrow>
     (case param2 of None \<Rightarrow> Inl Param1Param2Required
      | Some p2 \<Rightarrow>
        if p1 \<notin> set (parameters ds) \<or> p2 \<notin> set (parameters ds) then Inl ParametersMustBeIn
        else let series = filterByDateRange parse (data ds) from to;
                 x = map (\<lambda>s. get_field s p1) series;
                 y = map (\<lambda>s. get_field s p2) series
             in if length x = 0 \<or> length y = 0 then Inl NoDataInRange
                else let r = pearson x y
                     in (case number_toFixed6 r of
                           Inl e \<Rightarrow> Inl e
                         | Inr r6 \<Rightarrow>
                             Inr \<lparr>cr_r = r6, cr_interpretation = interpretation_label r\<rparr>))))"

section \<open>Calendar dates as time values\<close>

text \<open>
  The scenarios below need one concrete parser. \<open>parse_iso\<close> reads the two forms the
  filter meets when dates are calendar days: \<^verbatim>\<open>YYYY-MM-DD\<close>, and the same followed by
  \<^verbatim>\<open>T00:00:00Z\<close>; both denote midnight UTC of that day. Every other string is an
  invalid date here.
\<close>

definition digit :: "char \<Rightarrow> int option" where
  "digit c = map_of (zip ''0123456789'' [0, 1, 2, 3, 4, 5, 6, 7, 8, 9]) c"

fun decimal :: "int \<Rightarrow> string \<Rightarrow> int option" where
  "decimal acc [] = Some acc"
| "decimal acc (c # cs) = (case digit c of None \<Rightarrow> None | Some d \<Rightarrow> decimal (10 * acc + d) cs)"

definition days_in_month :: "int \<Rightarrow> int \<Rightarrow> int" where
  "days_in_month y m =
     (if m = 2 then (if y mod 4 = 0 \<and> (y mod 100 \<noteq> 0 \<or> y mod 400 = 0) then 29 else 28)
      else if m = 4 \<or> m = 6 \<or> m = 9 \<or> m = 11 then 30 else 31)"

text \<open>Days from 1970-01-01 to the given day of the proleptic Gregorian calendar.\<close>

definition days_from_civil :: "int \<Rightarrow> int \<Rightarrow> int \<Rightarrow> int" where
  "days_from_civil y m d =
     (let y' = (if m \<le> 2 then y - 1 else y);
          era = y' div 400;
          yoe = y' - era * 400;
          doy = (153 * (if m > 2 then m - 3 else m + 9) + 2) div 5 + d - 1;
          doe = yoe * 365 + yoe div 4 - yoe div 100 + doy
      in era * 146097 + doe - 719468)"

definition parse_iso :: "string \<Rightarrow> time_value" where
  "parse_iso s =
     (if (length s = 10 \<or> drop 10 s = ''T00:00:00Z'')
         \<and> take 1 (drop 4 s) = ''-'' \<and> take 1 (drop 7 s) = ''-'' then
        (case decimal 0 (take 4 s) of None \<Rightarrow> None
         | Some y \<Rightarrow> (case decimal 0 (take 2 (drop 5 s)) of None \<Rightarrow> None
         | Some m \<Rightarrow> (case decimal 0 (take 2 (drop 8 s)) of None \<Rightarrow> None
         | Some d \<Rightarrow>
             if 1 \<le> m \<and> m \<le> 12 \<and> 1 \<le> d \<and> d \<le> days_in_month y m
             then Some (86400000 * days_from_civil y m d) else None)))
      else None)"

text \<open>A ten-day daily series, 2024-01-01 to 2024-01-10, with one parameter.\<close>

definition day_record :: "string \<Rightarrow> real \<Rightarrow> dated_record" where
  "day_record d v = \<lparr>date = d, field = [''temperature'' \<mapsto> Some v]\<rparr>"

definition ten_days :: "dated_record list" where
  "ten_days =
     [day_record ''2024-01-01'' 1, day_record ''2024-01-02'' 2, day_record ''2024-01-03'' 3,
      day_record ''2024-01-04'' 4, day_record ''2024-01-05'' 5, day_record ''2024-01-06'' 6,
      day_record ''2024-01-07'' 7, day_record ''2024-01-08'' 8, day_record ''2024-01-09'' 9,
      day_record ''2024-01-10'' 10]"

section \<open>The statistics in the words of the specification\<close>

text \<open>
  The arithmetic mean, and the sums of the Pearson formula
  \<open>r = \<Sum>(x\<^sub>i - x\<^bold>\<bar>)(y\<^sub>i - y\<^bold>\<bar>) / sqrt (\<Sum>(x\<^sub>i - x\<^bold>\<bar>)\<^sup>2 \<sqdot> \<Sum>(y\<^sub>i - y\<^bold>\<bar>)\<^sup>2)\<close>.
\<close>

definition avg :: "real list \<Rightarrow> real" where
  "avg xs = sum_list xs / real (length xs)"

definition cov_sum :: "real list \<Rightarrow> real list \<Rightarrow> real" where
  "cov_sum xs ys = (\<Sum>i<length xs. (xs ! i - avg xs) * (ys ! i - avg ys))"

definition sq_sum :: "real list \<Rightarrow> real" where
  "sq_sum xs = (\<Sum>i<length xs. (xs ! i - avg xs) * (xs ! i - avg xs))"

text \<open>The Pearson coefficient of the formula, 0 when its denominator is zero.\<close>

definition pearson_r :: "real list \<Rightarrow> real list \<Rightarrow> real" where
  "pearson_r xs ys = (if sqrt (sq_sum xs * sq_sum ys) = 0 then 0
     else cov_sum xs ys / sqrt (sq_sum xs * sq_sum ys))"

text \<open>The trailing inclusive window \<open>a[max(0, i - W + 1)] .. a[i]\<close>.\<close>

definition trailing_window :: "real list \<Rightarrow> int \<Rightarrow> nat \<Rightarrow> real list" where
  "trailing_window a W i = map (\<lambda>j. a ! j) [nat (max 0 (int i - W + 1))..<i + 1]"

text \<open>
  The date-range filter in the words of the specification: a record is in range when
  \<open>from \<le> d\<close> if \<open>from\<close> is given and \<open>d \<le> to\<close> if \<open>to\<close> is given, where \<open>d\<close> is
  midnight UTC of the record's day and \<open>\<le>\<close> compares two valid dates.
\<close>

definition record_time :: "(string \<Rightarrow> time_value) \<Rightarrow> dated_record \<Rightarrow> time_value" where
  "record_time parse s = parse (date s @ ''T00:00:00Z'')"

definition date_le :: "time_value \<Rightarrow> time_value \<Rightarrow> bool" where
  "date_le a b = (case a of None \<Rightarrow> False
     | Some x \<Rightarrow> (case b of None \<Rightarrow> False | Some y \<Rightarrow> x \<le> y))"

definition in_range ::
    "(string \<Rightarrow> time_value) \<Rightarrow> string option \<Rightarrow> string option \<Rightarrow> dated_record \<Rightarrow> bool" where
  "in_range parse from to s =
     ((case from of None \<Rightarrow> True | Some f \<Rightarrow> date_le (parse f) (record_time parse s))
      \<and> (case to of None \<Rightarrow> True | Some t \<Rightarrow> date_le (record_time parse s) (parse t)))"

text \<open>
  Calendar dates: every record's date is a valid date, and a bound that is given is a
  non-empty string that parses as a valid date.
\<close>

definition valid_dates :: "(string \<Rightarrow> time_value) \<Rightarrow> dated_record list \<Rightarrow> bool" where
  "valid_dates parse series = list_all (\<lambda>s. record_time parse s \<noteq> None) series"

definition valid_bound :: "(string \<Rightarrow> time_value) \<Rightarrow> string option \<Rightarrow> bool" where
  "valid_bound parse q = (case q of None \<Rightarrow> True | Some s \<Rightarrow> s \<noteq> [] \<and> parse s \<noteq> None)"

section \<open>Example datasets\<close>

text \<open>Two parameters over five days: \<open>x = 1, 2, 3, 4, 5\<close> and \<open>y = 5, 4, 3, 2, 1\<close>.\<close>

definition xy_record :: "string \<Rightarrow> real \<Rightarrow> real \<Rightarrow> dated_record" where
  "xy_record d u v = \<lparr>date = d, field = [''x'' \<mapsto> Some u, ''y'' \<mapsto> Some v]\<rparr>"

definition xy_dataset :: dataset where
  "xy_dataset = \<lparr>parameters = [''x'', ''y''],
     data = [xy_record ''2024-01-01'' 1 5, xy_record ''2024-01-02'' 2 4,
             xy_record ''2024-01-03'' 3 3, xy_record ''2024-01-04'' 4 2,
             xy_record ''2024-01-05'' 5 1]\<rparr>"

text \<open>
  An uploaded dataset whose second record lacks the parameter:
  \<^verbatim>\<open>[{date: "2024-01-01", temperature: 1}, {date: "2024-01-02"}]\<close>.
\<close>

definition gap_dataset :: dataset where
  "gap_dataset = \<lparr>parameters = [''temperature''],
     data = [\<lparr>date = ''2024-01-01'', field = [''temperature'' \<mapsto> Some 1]\<rparr>,
             \<lparr>date = ''2024-01-02'', field = Map.empty\<rparr>]\<rparr>"

section \<open>Rounding to binary64\<close>

subsection \<open>Rounding to an integer, ties to even\<close>

lemma round_half_even_of_int [simp]: "round_half_even (of_int n) = n"
  by (simp add: round_half_even_def)

lemma round_half_even_cases:
  "round_half_even t = \<lfloor>t\<rfloor> \<or> round_half_even t = \<lfloor>t\<rfloor> + 1"
  by (simp add: round_half_even_def Let_def)

lemma round_half_even_nearest:
  assumes "\<bar>t - of_int m\<bar> < 1 / 2"
  shows "round_half_even t = m"
proof (cases "of_int m \<le> t")
  case True
  then have "\<lfloor>t\<rfloor> = m"
    using assms by (intro floor_unique) (auto simp: abs_if split: if_splits)
  then show ?thesis using assms True by (simp add: round_half_even_def Let_def abs_if)
next
  case False
  then have "\<lfloor>t\<rfloor> = m - 1"
    using assms by (intro floor_unique) (auto simp: abs_if split: if_splits)
  then show ?thesis using assms False
    by (auto simp add: round_half_even_def Let_def abs_if split: if_splits)
qed

lemma round_half_even_mono:
  assumes "s \<le> t"
  shows "round_half_even s \<le> round_half_even t"
proof (cases "\<lfloor>s\<rfloor> = \<lfloor>t\<rfloor>")
  case True
  then show ?thesis using assms by (auto simp: round_half_even_def Let_def)
next
  case False
  then have "\<lfloor>s\<rfloor> < \<lfloor>t\<rfloor>" using floor_mono[OF assms] by linarith
  moreover have "round_half_even s \<le> \<lfloor>s\<rfloor> + 1" using round_half_even_cases[of s] by auto
  moreover have "\<lfloor>t\<rfloor> \<le> round_half_even t" using round_half_even_cases[of t] by auto
  ultimately show ?thesis by linarith
qed

lemma round_half_even_minus: "round_half_even (- t) = - round_half_even t"
proof (cases "t \<in> \<int>")
  case True
  then obtain n where "t = of_int n" by (auto elim: Ints_cases)
  then show ?thesis by (simp flip: of_int_minus)
next
  case False
  then have ne: "t \<noteq> of_int \<lfloor>t\<rfloor>" by (metis Ints_of_int)
  then have f: "\<lfloor>- t\<rfloor> = - \<lfloor>t\<rfloor> - 1"
    by (simp add: floor_minus ceiling_altdef)
  show ?thesis
    unfolding round_half_even_def Let_def f
    by (auto simp: algebra_simps)
qed

lemma round_half_even_le_power:
  assumes "t \<le> 2 ^ n"
  shows "real_of_int (round_half_even t) \<le> 2 ^ n"
proof -
  have "round_half_even t \<le> round_half_even (of_int (2 ^ n))"
    using assms by (intro round_half_even_mono) simp
  then have "round_half_even t \<le> 2 ^ n" by (simp only: round_half_even_of_int)
  then show ?thesis by (metis of_int_le_iff of_int_numeral of_int_power)
qed

lemma round_half_even_ge_power:
  assumes "2 ^ n \<le> t"
  shows "2 ^ n \<le> real_of_int (round_half_even t)"
proof -
  have "round_half_even (of_int (2 ^ n)) \<le> round_half_even t"
    using assms by (intro round_half_even_mono) simp
  then have "2 ^ n \<le> round_half_even t" by (simp only: round_half_even_of_int)
  then show ?thesis by (metis of_int_le_iff of_int_numeral of_int_power)
qed

subsection \<open>Powers of two and the binary exponent\<close>

lemma powr_2_int: "(2::real) powr real_of_int k = 2 powi k"
  by (simp add: powr_real_of_int')

lemma powr_2_int_Suc: "(2::real) powr (real_of_int k + 1) = 2 powi (k + 1)"
  using powr_2_int[of "k + 1"] by simp

lemma powi_mono: "a \<le> b \<Longrightarrow> (2::real) powi a \<le> 2 powi b"
  by (intro power_int_increasing) simp_all

lemma powi_strict_mono: "a < b \<Longrightarrow> (2::real) powi a < 2 powi b"
  by (intro power_int_strict_increasing) simp_all

lemma powi_less_cancel: "(2::real) powi a < 2 powi b \<Longrightarrow> a < b"
  using powi_mono[of b a] by (cases "a < b") auto

lemma powi_minus_numeral: "(x::real) powi (- numeral n) = 1 / x ^ numeral n"
  by (simp add: power_int_minus divide_inverse)

lemma binary_exponent_bounds:
  assumes "x \<noteq> 0"
  shows "2 powi binary_exponent x \<le> \<bar>x\<bar>" and "\<bar>x\<bar> < 2 powi (binary_exponent x + 1)"
proof -
  have pos: "0 < \<bar>x\<bar>" using assms by simp
  have "\<lfloor>log 2 \<bar>x\<bar>\<rfloor> = binary_exponent x" by (simp add: binary_exponent_def)
  then have "2 powr real_of_int (binary_exponent x) \<le> \<bar>x\<bar>
      \<and> \<bar>x\<bar> < 2 powr (real_of_int (binary_exponent x) + 1)"
    using floor_log_eq_powr_iff[OF pos, of 2 "binary_exponent x"] by simp
  then show "2 powi binary_exponent x \<le> \<bar>x\<bar>" and "\<bar>x\<bar> < 2 powi (binary_exponent x + 1)"
    by (simp_all only: powr_2_int powr_2_int_Suc)
qed

lemma binary_exponent_eqI:
  assumes "2 powi k \<le> \<bar>x\<bar>" and "\<bar>x\<bar> < 2 powi (k + 1)"
  shows "binary_exponent x = k"
proof -
  have "0 < (2::real) powi k" by simp
  then have pos: "0 < \<bar>x\<bar>" using assms(1) by linarith
  have "2 powr real_of_int k \<le> \<bar>x\<bar> \<and> \<bar>x\<bar> < 2 powr (real_of_int k + 1)"
    using assms by (simp only: powr_2_int powr_2_int_Suc)
  then show ?thesis
    unfolding binary_exponent_def using floor_log_eq_powr_iff[OF pos, of 2 k] by simp
qed

lemma binary_exponent_minus [simp]: "binary_exponent (- x) = binary_exponent x"
  by (simp add: binary_exponent_def)

lemma ulp_exponent_minus [simp]: "ulp_exponent (- x) = ulp_exponent x"
  by (simp add: ulp_exponent_def)

lemma ulp_exponent_ge: "- 1074 \<le> ulp_exponent x"
  by (simp add: ulp_exponent_def)



text \<open>
  Scaled by its last place, a number lies below \<open>2^53\<close>, and at \<open>2^52\<close> or above unless it
  is subnormal.
\<close>

lemma scaled_less:
  assumes "0 < x"
  shows "x / 2 powi ulp_exponent x < 2 ^ 53"
proof -
  have "x < 2 powi (binary_exponent x + 1)"
    using binary_exponent_bounds(2)[of x] assms by simp
  also have "\<dots> \<le> 2 powi (ulp_exponent x + 53)"
    by (intro powi_mono) (simp add: ulp_exponent_def)
  also have "\<dots> = 2 powi ulp_exponent x * 2 ^ 53"
    by (simp add: power_int_add)
  finally show ?thesis by (simp add: divide_less_eq mult.commute)
qed

lemma scaled_ge:
  assumes "0 < x" and "- 1074 < ulp_exponent x"
  shows "2 ^ 52 \<le> x / 2 powi ulp_exponent x"
proof -
  have e: "ulp_exponent x = binary_exponent x - 52"
    using assms(2) by (simp add: ulp_exponent_def max_def split: if_splits)
  have "(2::real) powi ulp_exponent x * 2 ^ 52 = 2 powi (ulp_exponent x + 52)"
    by (simp add: power_int_add)
  also have "\<dots> = 2 powi binary_exponent x" by (simp add: e)
  also have "\<dots> \<le> x" using binary_exponent_bounds(1)[of x] assms by simp
  finally show ?thesis by (simp add: le_divide_eq mult.commute)
qed

subsection \<open>The rounding function\<close>

lemma round_binary64_0 [simp]: "round_binary64 0 = 0"
  by (simp add: round_binary64_def)

lemma round_binary64_minus: "round_binary64 (- x) = - round_binary64 x"
  by (simp add: round_binary64_def round_half_even_minus)

lemma round_binary64_pos:
  "0 < x \<Longrightarrow> round_binary64 x
     = of_int (round_half_even (x / 2 powi ulp_exponent x)) * 2 powi ulp_exponent x"
  by (simp add: round_binary64_def)


lemma round_binary64_nonneg: "0 \<le> x \<Longrightarrow> 0 \<le> round_binary64 x"
proof -
  assume x: "0 \<le> x"
  have "round_half_even (of_int 0) \<le> round_half_even (x / 2 powi ulp_exponent x)"
    using x by (intro round_half_even_mono) simp
  then have "0 \<le> round_half_even (x / 2 powi ulp_exponent x)"
    by (simp only: round_half_even_of_int)
  then show ?thesis by (simp add: round_binary64_def)
qed


lemma round_binary64_eval:
  assumes "2 powi k \<le> \<bar>x\<bar>" and "\<bar>x\<bar> < 2 powi (k + 1)"
  shows "round_binary64 x = of_int (round_half_even (x / 2 powi max (k - 52) (- 1074)))
           * 2 powi max (k - 52) (- 1074)"
proof -
  have "0 < (2::real) powi k" by simp
  then have "0 < \<bar>x\<bar>" using assms(1) by linarith
  then have "x \<noteq> 0" by simp
  moreover have "ulp_exponent x = max (k - 52) (- 1074)"
    using binary_exponent_eqI[OF assms(1,2)] by (simp add: ulp_exponent_def)
  ultimately show ?thesis by (simp add: round_binary64_def)
qed

subsection \<open>Binary64 values are fixed points\<close>

lemma is_binary64_0 [simp]: "is_binary64 0"
  unfolding is_binary64_def by (rule exI[of _ 0], rule exI[of _ 0]) simp

lemma is_binary64_minus:
  assumes "is_binary64 y"
  shows "is_binary64 (- y)"
proof -
  obtain m e where "y = of_int m * 2 powi e" "\<bar>m\<bar> < 2 ^ 53" "- 1074 \<le> e" "e \<le> 971"
    using assms unfolding is_binary64_def by blast
  then have "- y = of_int (- m) * 2 powi e \<and> \<bar>- m\<bar> < 2 ^ 53 \<and> - 1074 \<le> e \<and> e \<le> 971"
    by simp
  then show ?thesis unfolding is_binary64_def by blast
qed

lemma abs_of_int_less_power:
  assumes "\<bar>m\<bar> < 2 ^ n"
  shows "\<bar>real_of_int m\<bar> < 2 ^ n"
  using assms by (metis of_int_abs of_int_less_iff of_int_numeral of_int_power)

lemma is_binary64_less:
  assumes "is_binary64 y"
  shows "\<bar>y\<bar> < 2 ^ 1024"
proof -
  obtain m e where y: "y = of_int m * 2 powi e" and m: "\<bar>m\<bar> < 2 ^ 53" and e: "e \<le> 971"
    using assms unfolding is_binary64_def by blast
  have "\<bar>y\<bar> = \<bar>real_of_int m\<bar> * 2 powi e" unfolding y by (simp add: abs_mult)
  also have "\<dots> < 2 ^ 53 * 2 powi e"
    using abs_of_int_less_power[OF m] by (simp add: mult_strict_right_mono)
  also have "\<dots> \<le> 2 ^ 53 * 2 powi 971"
    using e by (intro mult_left_mono powi_mono) simp_all
  also have "\<dots> = 2 ^ 1024" by simp
  finally show ?thesis .
qed

lemma round_binary64_id:
  assumes "is_binary64 y"
  shows "round_binary64 y = y"
proof (cases "y = 0")
  case True
  then show ?thesis by simp
next
  case False
  obtain m q where y: "y = of_int m * 2 powi q" and m: "\<bar>m\<bar> < 2 ^ 53"
    and q: "- 1074 \<le> q"
    using assms unfolding is_binary64_def by blast
  define e where "e = ulp_exponent y"
  have "\<bar>y\<bar> < 2 ^ 53 * 2 powi q"
    unfolding y using abs_of_int_less_power[OF m] by (simp add: abs_mult mult_strict_right_mono)
  also have "\<dots> = 2 powi (q + 53)" by (simp add: power_int_add)
  finally have "2 powi binary_exponent y < (2::real) powi (q + 53)"
    using binary_exponent_bounds(1)[OF False] by linarith
  then have "binary_exponent y < q + 53"
    by (rule powi_less_cancel)
  then have eq: "e \<le> q" using q by (simp add: e_def ulp_exponent_def)
  define n where "n = nat (q - e)"
  have "(2::real) powi q = 2 powi (e + int n)" using eq by (simp add: n_def)
  also have "\<dots> = 2 powi e * 2 ^ n" by (simp add: power_int_add)
  finally have pq: "(2::real) powi q = 2 powi e * 2 ^ n" .
  have sc: "y / 2 powi e = of_int (m * 2 ^ n)"
    unfolding y pq by simp
  have "round_binary64 y = of_int (round_half_even (y / 2 powi e)) * 2 powi e"
    using False by (simp add: round_binary64_def e_def)
  also have "\<dots> = of_int (m * 2 ^ n) * 2 powi e"
    unfolding sc by (simp only: round_half_even_of_int)
  also have "\<dots> = y / 2 powi e * 2 powi e"
    by (simp only: sc)
  finally show ?thesis by simp
qed

subsection \<open>Rounded results are binary64 values\<close>

lemma of_int_mult_powi_nonneg:
  fixes m :: int
  assumes "0 \<le> real_of_int m * 2 powi e"
  shows "0 \<le> m"
proof (rule ccontr)
  assume "\<not> 0 \<le> m"
  then have "real_of_int m < 0" by simp
  moreover have "0 < (2::real) powi e" by simp
  ultimately have "real_of_int m * 2 powi e < 0" by (rule mult_neg_pos)
  with assms show False by linarith
qed

lemma of_int_le_power_53:
  fixes m :: int
  assumes "real_of_int m \<le> 2 ^ 53"
  shows "m \<le> 2 ^ 53"
proof -
  have "real_of_int m \<le> real_of_int (2 ^ 53)" using assms by simp
  then show ?thesis by (simp only: of_int_le_iff)
qed

lemma round_binary64_is_binary64_pos:
  assumes "0 < x" and "round_binary64 x < 2 ^ 1024"
  shows "is_binary64 (round_binary64 x)"
proof -
  define e where "e = ulp_exponent x"
  define m where "m = round_half_even (x / 2 powi e)"
  have r: "round_binary64 x = of_int m * 2 powi e"
    using round_binary64_pos[OF assms(1)] by (simp add: m_def e_def)
  have e_lo: "- 1074 \<le> e" by (simp add: e_def ulp_exponent_ge)
  have "0 \<le> round_binary64 x" using assms(1) by (simp add: round_binary64_nonneg)
  then have "0 \<le> real_of_int m * 2 powi e" by (simp only: r)
  then have m0: "0 \<le> m" by (rule of_int_mult_powi_nonneg)
  have "real_of_int m \<le> 2 ^ 53"
    unfolding m_def e_def using scaled_less[OF assms(1)]
    by (intro round_half_even_le_power) simp
  then have m_hi: "m \<le> 2 ^ 53" by (rule of_int_le_power_53)
  show ?thesis
  proof (cases "m = 2 ^ 53")
    case True
    have "(2::real) powi (e + 53) = 2 ^ 53 * 2 powi e" by (simp add: power_int_add)
    also have "\<dots> = round_binary64 x" unfolding r True by simp
    also have "\<dots> < 2 powi 1024" using assms(2) by simp
    finally have "e + 53 < 1024" by (rule powi_less_cancel)
    then have e_hi: "e + 1 \<le> 971" by simp
    have e_lo': "- 1074 \<le> e + 1" using e_lo by simp
    have eq: "round_binary64 x = of_int (2 ^ 52) * 2 powi (e + 1)"
      unfolding r True by (simp add: power_int_add)
    have "\<bar>2 ^ 52 :: int\<bar> < 2 ^ 53" by simp
    then show ?thesis
      unfolding is_binary64_def using eq e_lo' e_hi by blast
  next
    case False
    then have m_lt: "\<bar>m\<bar> < 2 ^ 53" using m0 m_hi by simp
    have "e \<le> 971"
    proof (rule ccontr)
      assume "\<not> e \<le> 971"
      then have big: "972 \<le> e" by simp
      then have "- 1074 < ulp_exponent x" by (simp add: e_def)
      then have "(2 ^ 52 :: real) \<le> real_of_int m"
        unfolding m_def e_def using scaled_ge[OF assms(1)]
        by (intro round_half_even_ge_power) simp
      then have "2 ^ 52 * 2 powi e \<le> round_binary64 x"
        unfolding r by (simp add: mult_right_mono)
      moreover have "(2::real) ^ 52 * 2 powi 972 \<le> 2 ^ 52 * 2 powi e"
        using big by (intro mult_left_mono powi_mono) simp_all
      moreover have "(2::real) ^ 52 * 2 powi 972 = 2 ^ 1024" by simp
      ultimately show False using assms(2) by linarith
    qed
    then show ?thesis
      unfolding is_binary64_def using r m_lt e_lo by blast
  qed
qed

lemma round_binary64_is_binary64:
  assumes "\<bar>round_binary64 x\<bar> < 2 ^ 1024"
  shows "is_binary64 (round_binary64 x)"
proof -
  consider "0 < x" | "x = 0" | "x < 0" by linarith
  then show ?thesis
  proof cases
    case 1
    then show ?thesis using assms by (intro round_binary64_is_binary64_pos) simp_all
  next
    case 2
    then show ?thesis by simp
  next
    case 3
    then have "is_binary64 (round_binary64 (- x))"
      using assms by (intro round_binary64_is_binary64_pos) (simp_all add: round_binary64_minus)
    then show ?thesis
      using is_binary64_minus[of "round_binary64 (- x)"] by (simp add: round_binary64_minus)
  qed
qed

subsection \<open>The binary64 value of a real\<close>

lemma binary64_cases:
  "binary64 x = Infinity \<or> binary64 x = NegInfinity
    \<or> (binary64 x = Num (round_binary64 x) \<and> \<bar>round_binary64 x\<bar> < 2 ^ 1024)"
  unfolding binary64_def Let_def by (simp only: abs_if split: if_splits) auto

lemma binary64_0 [simp]: "binary64 0 = Num 0"
  by (simp add: binary64_def)

lemma binary64_id:
  assumes "is_binary64 y"
  shows "binary64 y = Num y"
  using is_binary64_less[OF assms] round_binary64_id[OF assms]
  by (simp add: binary64_def abs_if split: if_splits)

lemma binary64_Num_is_binary64:
  assumes "binary64 x = Num y"
  shows "is_binary64 y"
  using assms round_binary64_is_binary64[of x]
  by (auto simp: binary64_def Let_def abs_if split: if_splits)




lemma binary64_eval:
  assumes "2 powi k \<le> \<bar>x\<bar>" and "\<bar>x\<bar> < 2 powi (k + 1)"
    and "of_int (round_half_even (x / 2 powi max (k - 52) (- 1074)))
           * 2 powi max (k - 52) (- 1074) = y"
    and "\<bar>y\<bar> < 2 ^ 1024"
  shows "binary64 x = Num y"
  using round_binary64_eval[OF assms(1,2)] assms(3,4)
  by (simp add: binary64_def Let_def abs_if split: if_splits)


text \<open>Integers below \<open>2^53\<close> in magnitude, and their doubles, are binary64 values.\<close>

lemma is_binary64_of_int:
  assumes "\<bar>n\<bar> < 2 ^ 53"
  shows "is_binary64 (of_int n)"
  unfolding is_binary64_def using assms
  by (intro exI[of _ n] exI[of _ 0]) simp


lemma binary64_numeral [simp]:
  "numeral w < (2 ^ 53 :: int) \<Longrightarrow> binary64 (numeral w) = Num (numeral w)"
  using binary64_id[OF is_binary64_of_int[of "numeral w"]] by simp

lemma binary64_neg_numeral [simp]:
  "numeral w < (2 ^ 53 :: int) \<Longrightarrow> binary64 (- numeral w) = Num (- numeral w)"
  using binary64_id[OF is_binary64_of_int[of "- numeral w"]] by simp

lemma binary64_1 [simp]: "binary64 1 = Num 1"
  using binary64_id[OF is_binary64_of_int[of 1]] by simp

lemma binary64_neg_1 [simp]: "binary64 (- 1) = Num (- 1)"
  using binary64_id[OF is_binary64_of_int[of "- 1"]] by simp

text \<open>The correctly rounded square root of a number that is not a perfect square.\<close>

lemma binary64_sqrt_eval:
  assumes "(2 powi k)\<^sup>2 \<le> q" and "q < (2 powi (k + 1))\<^sup>2"
    and "((of_int m - 1 / 2) * 2 powi max (k - 52) (- 1074))\<^sup>2 < q"
    and "q < ((of_int m + 1 / 2) * 2 powi max (k - 52) (- 1074))\<^sup>2"
    and "0 < m"
    and "of_int m * 2 powi max (k - 52) (- 1074) = y" and "\<bar>y\<bar> < 2 ^ 1024"
  shows "binary64 (sqrt q) = Num y"
proof -
  define e where "e = max (k - 52) (- 1074)"
  have p: "0 < (2::real) powi e" by simp
  have lo: "2 powi k \<le> sqrt q" using assms(1) by (rule real_le_rsqrt)
  have "0 \<le> (2::real) powi (k + 1)" by simp
  then have hi: "sqrt q < 2 powi (k + 1)" using assms(2) by (rule real_less_lsqrt)
  have "0 < sqrt q" using lo by (smt (verit) zero_less_power_int)
  then have a: "\<bar>sqrt q\<bar> = sqrt q" by simp
  have "0 \<le> (of_int m + 1 / 2) * (2::real) powi e" using assms(5) by simp
  then have up: "sqrt q < (of_int m + 1 / 2) * 2 powi e"
    using assms(4) unfolding e_def by (rule real_less_lsqrt)
  have dn: "(of_int m - 1 / 2) * 2 powi e < sqrt q"
    using assms(3) unfolding e_def by (rule real_less_rsqrt)
  have "sqrt q / 2 powi e < of_int m + 1 / 2" "of_int m - 1 / 2 < sqrt q / 2 powi e"
    using up dn p by (simp_all add: pos_divide_less_eq pos_less_divide_eq)
  then have "\<bar>sqrt q / 2 powi e - of_int m\<bar> < 1 / 2" by linarith
  then have "round_half_even (sqrt q / 2 powi e) = m" by (rule round_half_even_nearest)
  then have "of_int (round_half_even (sqrt q / 2 powi max (k - 52) (- 1074)))
      * 2 powi max (k - 52) (- 1074) = y"
    using assms(6) by (simp add: e_def)
  moreover have "2 powi k \<le> \<bar>sqrt q\<bar>" "\<bar>sqrt q\<bar> < 2 powi (k + 1)"
    using lo hi by (simp_all only: a)
  ultimately show ?thesis using assms(7) by (intro binary64_eval[where k = k])
qed

section \<open>Sums and means of numbers\<close>

lemma binary64_extended: "extended (binary64 x)"
  using binary64_cases[of x] by (auto simp: extended_def)


lemma nonnegative_extended: "nonnegative v \<Longrightarrow> extended v"
  by (cases v) (simp_all add: nonnegative_def extended_def)

lemma js_add_extended: "extended a \<Longrightarrow> extended (js_add a (Num y))"
  by (cases a) (simp_all add: js_add_def extended_def binary64_extended[unfolded extended_def])

lemma foldl_js_add_extended:
  "extended a \<Longrightarrow> extended (foldl js_add a (map Num xs))"
  by (induction xs arbitrary: a) (simp_all add: js_add_extended)

lemma js_div_extended:
  assumes "extended a" and "0 < n"
  shows "extended (js_div a (Num n))"
  using assms
  by (cases a) (simp_all add: js_div_def extended_def binary64_extended[unfolded extended_def])

lemma mean_extended:
  assumes "xs \<noteq> []"
  shows "extended (mean (map Num xs))"
proof -
  have "extended (foldl js_add (Num 0) (map Num xs))"
    by (rule foldl_js_add_extended) (simp add: extended_def)
  moreover have "0 < real (length xs)" using assms by simp
  ultimately show ?thesis using assms by (simp add: mean_def js_div_extended)
qed

section \<open>Standard deviation\<close>













section \<open>Summary statistics\<close>










lemma is_binary64_numeral [simp]: "numeral w < (2 ^ 53 :: int) \<Longrightarrow> is_binary64 (numeral w)"
  using is_binary64_of_int[of "numeral w"] by simp

lemma is_binary64_1 [simp]: "is_binary64 1"
  using is_binary64_of_int[of 1] by simp




section \<open>Moving average\<close>

lemma slice_map: "slice (map f xs) s e = map f (slice xs s e)"
  by (simp add: slice_def take_map drop_map)

lemma slice_nth: "e \<le> length xs \<Longrightarrow> slice xs s e = map (\<lambda>j. xs ! j) [s..<e]"
  by (rule nth_equalityI) (auto simp: slice_def)

lemma movingAverage_fold:
  assumes "\<forall>i<k. number_toFixed6 (mean (slice arr (window_start W i) (i + 1))) = Inr (g i)"
  shows "fold (\<lambda>i acc. case acc of Inl e \<Rightarrow> Inl e
                    | Inr out \<Rightarrow> movingAverage_step arr W i out)
          [0..<k] (Inr []) = Inr (map g [0..<k])"
  using assms
proof (induction k)
  case 0
  then show ?case by simp
next
  case (Suc k)
  then show ?case by (simp add: movingAverage_step_def)
qed

lemma trailing_window_nonempty:
  assumes "0 < W" and "i < length xs"
  shows "trailing_window xs W i \<noteq> []"
  using assms by (simp add: trailing_window_def)

lemma window_slice:
  assumes "i < length xs"
  shows "slice (map Num xs) (window_start (Some W) i) (i + 1) = map Num (trailing_window xs W i)"
  using assms by (simp add: slice_map slice_nth window_start_def trailing_window_def)

lemma number_toFixed6_extended:
  assumes "extended v"
  shows "\<exists>r. number_toFixed6 v = Inr r \<and> extended r"
  using assms by (cases v) (simp_all add: extended_def binary64_extended[unfolded extended_def])

lemma window_mean:
  assumes "0 < W" and "i < length xs"
  shows "\<exists>r. number_toFixed6 (mean (map Num (trailing_window xs W i))) = Inr r \<and> extended r"
  using trailing_window_nonempty[OF assms] by (intro number_toFixed6_extended mean_extended)

lemma movingAverage_Num:
  assumes "0 < W"
  shows "movingAverage (map Num xs) (Some W)
     = Inr (map (\<lambda>i. projr (number_toFixed6 (mean (map Num (trailing_window xs W i)))))
         [0..<length xs])"
proof -
  have "number_toFixed6 (mean (slice (map Num xs) (window_start (Some W) i) (i + 1)))
      = Inr (projr (number_toFixed6 (mean (map Num (trailing_window xs W i)))))"
    if "i < length xs" for i
    using window_mean[OF assms that] unfolding window_slice[OF that] by auto
  then show ?thesis
    unfolding movingAverage_def
    using movingAverage_fold[of "length (map Num xs)" "map Num xs" "Some W"
      "\<lambda>i. projr (number_toFixed6 (mean (map Num (trailing_window xs W i))))"]
    by simp
qed

text \<open>
  C3, as the claim states it, fails: \<open>movingAverage\<close> rounds every mean with
  \<^verbatim>\<open>toFixed(6)\<close>. For \<open>[1, 1, 2]\<close> and window 3 the last element is the binary64 number
  \<open>1.333333\<close>, while the mean of the window \<open>[1, 1, 2]\<close> in full precision is the
  binary64 number nearest to \<open>4/3\<close>.
\<close>

theorem movingAverage_full_precision_counterexample:
  "movingAverage (map Num [1, 1, 2]) (Some 3) = Inr [Num 1, Num 1, Num (3002399000980393 / 2251799813685248)]
   \<and> mean (map Num (trailing_window [1, 1, 2] 3 2)) = Num (6004799503160661 / 4503599627370496)
   \<and> Num (3002399000980393 / 2251799813685248) \<noteq> Num (6004799503160661 / 4503599627370496)"
proof -
  have a1: "binary64 (4 / 3) = Num (6004799503160661 / 4503599627370496)"
    by (rule binary64_eval[where k = "0"]) (simp_all add: round_half_even_def powi_minus_numeral)
  have a2: "binary64 (1333333 / 1000000) = Num (3002399000980393 / 2251799813685248)"
    by (rule binary64_eval[where k = "0"]) (simp_all add: round_half_even_def powi_minus_numeral)
  show ?thesis
    by (simp add: movingAverage_def movingAverage_step_def window_start_def slice_def mean_def js_add_def js_div_def
        round6_def
        trailing_window_def numeral_3_eq_3 a1 a2)
qed

text \<open>
  C3, amended. For every sequence of numbers \<open>a\<close> and every positive integer window
  size \<open>W\<close>, \<open>movingAverage (a, W)\<close> returns a sequence of the same length as \<open>a\<close> whose
  element at each index \<open>i\<close> is \<^verbatim>\<open>Number(m.toFixed(6))\<close>, where \<open>m\<close> is the mean that the
  code computes in binary64 arithmetic for the trailing inclusive window
  \<open>a[max(0, i - W + 1)] .. a[i]\<close>; the element is a number or an infinity, never NaN.
  \<open>[1, 2, 3, 4, 5, 6, 7]\<close> with \<open>W = 3\<close> yields \<open>[1, 1.5, 2, 3, 4, 5, 6]\<close>.
\<close>

theorem movingAverage_rounded_window_mean:
  "(0 < W \<longrightarrow> (\<exists>out. movingAverage (map Num a) (Some W) = Inr out \<and> length out = length a
        \<and> (\<forall>i<length a. number_toFixed6 (mean (map Num (trailing_window a W i))) = Inr (out ! i)
              \<and> extended (out ! i))))
   \<and> movingAverage (map Num [1, 2, 3, 4, 5, 6, 7]) (Some 3)
       = Inr (map Num [1, 3 / 2, 2, 3, 4, 5, 6])"
proof -
  have b1: "binary64 (3 / 2) = Num (3 / 2)"
    by (rule binary64_eval[where k = "0"]) (simp_all add: round_half_even_def powi_minus_numeral)
  have "movingAverage (map Num [1, 2, 3, 4, 5, 6, 7]) (Some 3)
      = Inr (map Num [1, 3 / 2, 2, 3, 4, 5, 6])"
    by (simp add: movingAverage_def movingAverage_step_def window_start_def slice_def mean_def js_add_def js_div_def
        round6_def
        b1)
  moreover have "\<exists>out. movingAverage (map Num a) (Some W) = Inr out \<and> length out = length a
        \<and> (\<forall>i<length a. number_toFixed6 (mean (map Num (trailing_window a W i))) = Inr (out ! i)
              \<and> extended (out ! i))" if "0 < W"
  proof -
    define g where "g = (\<lambda>i. projr (number_toFixed6 (mean (map Num (trailing_window a W i)))))"
    have "number_toFixed6 (mean (map Num (trailing_window a W i))) = Inr (g i) \<and> extended (g i)"
      if "i < length a" for i
      using window_mean[OF \<open>0 < W\<close> that] unfolding g_def by auto
    moreover have "movingAverage (map Num a) (Some W) = Inr (map g [0..<length a])"
      unfolding g_def by (rule movingAverage_Num[OF that])
    ultimately show ?thesis by simp
  qed
  ultimately show ?thesis by blast
qed

text \<open>
  The two readings \<open>1.3460451\<close> and \<open>4.1947019\<close> with window 2: their sum in binary64 is
  just below \<open>5.540747\<close>, so the second element is \<open>2.770373\<close>, where the mean of the two
  decimals would round to \<open>2.770374\<close>.
\<close>

theorem movingAverage_rounded_window_mean_witness:
  "movingAverage (map Num [3031024105391941 / 2251799813685248, 2361407239221289 / 562949953421312]) (Some 2)
     = Inr [Num (6062047760423919 / 4503599627370496), Num (3119162702619321 / 1125899906842624)]
   \<and> mean (map Num [3031024105391941 / 2251799813685248, 2361407239221289 / 562949953421312]) = Num (1559581632784637 / 562949953421312)
   \<and> number_toFixed6 (Num (1559581632784637 / 562949953421312)) = Inr (Num (3119162702619321 / 1125899906842624))
   \<and> round_binary64 (2770373 / 1000000) = 3119162702619321 / 1125899906842624
   \<and> round_binary64 (13460451 / 10000000) = 3031024105391941 / 2251799813685248
   \<and> round_binary64 (41947019 / 10000000) = 2361407239221289 / 562949953421312"
proof -
  have c1: "binary64 (3031024105391941 / 2251799813685248) = Num (3031024105391941 / 2251799813685248)"
    by (rule binary64_eval[where k = "0"]) (simp_all add: round_half_even_def powi_minus_numeral)
  have c2: "binary64 (269209 / 200000) = Num (6062047760423919 / 4503599627370496)"
    by (rule binary64_eval[where k = "0"]) (simp_all add: round_half_even_def powi_minus_numeral)
  have c3: "binary64 (12476653062277097 / 2251799813685248) = Num (1559581632784637 / 281474976710656)"
    by (rule binary64_eval[where k = "2"]) (simp_all add: round_half_even_def powi_minus_numeral)
  have c4: "binary64 (1559581632784637 / 562949953421312) = Num (1559581632784637 / 562949953421312)"
    by (rule binary64_eval[where k = "1"]) (simp_all add: round_half_even_def powi_minus_numeral)
  have c5: "binary64 (2770373 / 1000000) = Num (3119162702619321 / 1125899906842624)"
    by (rule binary64_eval[where k = "1"]) (simp_all add: round_half_even_def powi_minus_numeral)
  have d: "round_binary64 (13460451 / 10000000) = 3031024105391941 / 2251799813685248"
    "round_binary64 (41947019 / 10000000) = 2361407239221289 / 562949953421312"
    by (subst round_binary64_eval[where k = "0"], simp_all add: round_half_even_def powi_minus_numeral,
        subst round_binary64_eval[where k = "2"], simp_all add: round_half_even_def powi_minus_numeral)
  have r: "round_binary64 (2770373 / 1000000) = 3119162702619321 / 1125899906842624"
    by (subst round_binary64_eval[where k = "1"]) (simp_all add: round_half_even_def powi_minus_numeral)
  have m: "movingAverage (map Num [3031024105391941 / 2251799813685248, 2361407239221289 / 562949953421312]) (Some 2)
     = Inr [Num (6062047760423919 / 4503599627370496), Num (3119162702619321 / 1125899906842624)]"
    by (simp add: movingAverage_def movingAverage_step_def window_start_def slice_def mean_def js_add_def js_div_def
        round6_def
        c1 c2 c3 c4 c5)
  have "mean (map Num [3031024105391941 / 2251799813685248, 2361407239221289 / 562949953421312]) = Num (1559581632784637 / 562949953421312)"
    by (simp add: mean_def js_add_def js_div_def c1 c2 c3 c4 c5)
  moreover have "number_toFixed6 (Num (1559581632784637 / 562949953421312)) = Inr (Num (3119162702619321 / 1125899906842624))"
    by (simp add: round6_def c1 c2 c3 c4 c5)
  ultimately show ?thesis
    using movingAverage_rounded_window_mean[of 2 "[3031024105391941 / 2251799813685248, 2361407239221289 / 562949953421312]"] m r d by simp
qed

section \<open>Date-range filter\<close>

lemma date_lt_None [simp]: "date_lt d None = False"
  by (simp add: date_lt_def split: option.splits)

lemma date_gt_None [simp]: "date_gt d None = False"
  by (simp add: date_gt_def split: option.splits)

lemma bound_date_not_truthy: "\<not> truthy q \<Longrightarrow> bound_date parse q = None"
  by (simp add: truthy_def bound_date_def split: option.splits)

lemma filter_in_range:
  assumes "valid_dates parse series"
    and "valid_bound parse from" and "valid_bound parse to"
  shows "filterByDateRange parse series from to = filter (in_range parse from to) series"
proof -
  have keep: "(if (case bound_date parse from of None \<Rightarrow> False
                    | Some f \<Rightarrow> date_lt (record_time parse s) f) then False
         else if (case bound_date parse to of None \<Rightarrow> False
                    | Some t \<Rightarrow> date_gt (record_time parse s) t) then False
         else True) = in_range parse from to s" if mem: "s \<in> set series" for s
  proof -
    obtain d where d: "record_time parse s = Some d"
      using assms(1) mem by (auto simp: valid_dates_def list_all_iff)
    show ?thesis
      using assms(2,3) d
      by (auto simp: valid_bound_def bound_date_def in_range_def date_lt_def date_gt_def
          date_le_def split: option.splits)
  qed
  show ?thesis
  proof (cases "\<not> truthy from \<and> \<not> truthy to")
    case True
    then have "from = None \<and> to = None"
      using assms(2,3) by (auto simp: truthy_def valid_bound_def split: option.splits)
    then show ?thesis by (simp add: filterByDateRange_def truthy_def in_range_def)
  next
    case False
    then have "filterByDateRange parse series from to =
        filter (\<lambda>s. if (case bound_date parse from of None \<Rightarrow> False
                              | Some f \<Rightarrow> date_lt (record_time parse s) f) then False
                   else if (case bound_date parse to of None \<Rightarrow> False
                              | Some t \<Rightarrow> date_gt (record_time parse s) t) then False
                   else True) series"
      unfolding filterByDateRange_def Let_def record_time_def by (simp only: if_False)
    also have "\<dots> = filter (in_range parse from to) series"
      by (rule filter_cong) (simp_all only: keep)
    finally show ?thesis .
  qed
qed

lemma invalid_from_bound:
  assumes "parse f = None"
  shows "filterByDateRange parse series (Some f) to = filterByDateRange parse series None to"
proof (cases "f = []")
  case True
  then show ?thesis by (simp add: filterByDateRange_def truthy_def bound_date_def)
next
  case False
  have b: "bound_date parse (Some f) = Some None"
    using assms False by (simp add: bound_date_def)
  have tr: "truthy (Some f)" "\<not> truthy None"
    using False by (simp_all add: truthy_def)
  show ?thesis
    by (cases "truthy to") (simp_all add: filterByDateRange_def b tr bound_date_not_truthy)
qed

lemma invalid_to_bound:
  assumes "parse t = None"
  shows "filterByDateRange parse series from (Some t) = filterByDateRange parse series from None"
proof (cases "t = []")
  case True
  then show ?thesis by (simp add: filterByDateRange_def truthy_def bound_date_def)
next
  case False
  have b: "bound_date parse (Some t) = Some None"
    using assms False by (simp add: bound_date_def)
  have tr: "truthy (Some t)" "\<not> truthy None"
    using False by (simp_all add: truthy_def)
  show ?thesis
    by (cases "truthy from") (simp_all add: filterByDateRange_def b tr bound_date_not_truthy)
qed

lemma ten_days_upto_second:
  "filterByDateRange parse_iso ten_days None (Some ''2024-01-02'')
     = [day_record ''2024-01-01'' 1, day_record ''2024-01-02'' 2]"
  by (simp add: filterByDateRange_def truthy_def bound_date_def ten_days_def day_record_def
      date_lt_def date_gt_def parse_iso_def digit_def days_in_month_def days_from_civil_def)

text \<open>
  C7. For a sequence of records and optional bounds \<open>from\<close> and \<open>to\<close>, all of them
  calendar dates, the filter returns exactly the records, in their order, whose date
  \<open>d\<close> satisfies \<open>from \<le> d\<close> when \<open>from\<close> is given and \<open>d \<le> to\<close> when \<open>to\<close> is given,
  bounds included; with neither bound it returns the input. The witness is the scenario
  of the specification: from 2024-01-03 to 2024-01-05 over ten days gives the three
  records of those days.
\<close>

theorem filterByDateRange_in_range:
  "(valid_dates parse series \<and> valid_bound parse from \<and> valid_bound parse to \<longrightarrow>
      filterByDateRange parse series from to = filter (in_range parse from to) series)
   \<and> filterByDateRange parse series None None = series"
proof (intro conjI impI)
  assume "valid_dates parse series \<and> valid_bound parse from \<and> valid_bound parse to"
  then show "filterByDateRange parse series from to = filter (in_range parse from to) series"
    by (simp add: filter_in_range)
next
  show "filterByDateRange parse series None None = series"
    by (simp add: filterByDateRange_def truthy_def)
qed

theorem filterByDateRange_in_range_witness:
  "valid_dates parse_iso ten_days \<and> valid_bound parse_iso (Some ''2024-01-03'')
   \<and> valid_bound parse_iso (Some ''2024-01-05'')
   \<and> filterByDateRange parse_iso ten_days (Some ''2024-01-03'') (Some ''2024-01-05'')
       = [day_record ''2024-01-03'' 3, day_record ''2024-01-04'' 4, day_record ''2024-01-05'' 5]"
proof -
  have a: "valid_dates parse_iso ten_days"
    by (simp add: valid_dates_def ten_days_def day_record_def record_time_def parse_iso_def
        digit_def days_in_month_def)
  have b: "valid_bound parse_iso (Some ''2024-01-03'')" "valid_bound parse_iso (Some ''2024-01-05'')"
    by (simp_all add: valid_bound_def parse_iso_def digit_def days_in_month_def)
  have c: "filter (in_range parse_iso (Some ''2024-01-03'') (Some ''2024-01-05'')) ten_days
      = [day_record ''2024-01-03'' 3, day_record ''2024-01-04'' 4, day_record ''2024-01-05'' 5]"
    by (simp add: in_range_def record_time_def date_le_def ten_days_def day_record_def
        parse_iso_def digit_def days_in_month_def days_from_civil_def)
  show ?thesis
    using filterByDateRange_in_range[of parse_iso ten_days "Some ''2024-01-03''"
        "Some ''2024-01-05''"] a b c
    by simp
qed

text \<open>
  C10. When a supplied \<open>from\<close> or \<open>to\<close> string does not parse as a valid date, the
  filter treats that bound as absent: every comparison of a record's date with the
  invalid bound is false, and the output is the output obtained with that bound omitted.
  The filter has no failing branch, so the comparison cannot crash.
\<close>

theorem filterByDateRange_invalid_bound:
  "(parse f = None \<longrightarrow>
      filterByDateRange parse series (Some f) to = filterByDateRange parse series None to)
   \<and> (parse t = None \<longrightarrow>
      filterByDateRange parse series from (Some t) = filterByDateRange parse series from None)
   \<and> date_lt d None = False \<and> date_gt d None = False"
  by (simp add: invalid_from_bound invalid_to_bound)

theorem filterByDateRange_invalid_bound_witness:
  "parse_iso ''not-a-date'' = None
   \<and> filterByDateRange parse_iso ten_days (Some ''not-a-date'') (Some ''2024-01-02'')
       = [day_record ''2024-01-01'' 1, day_record ''2024-01-02'' 2]
   \<and> filterByDateRange parse_iso ten_days None (Some ''not-a-date'') = ten_days"
proof -
  have n: "parse_iso ''not-a-date'' = None"
    by (simp add: parse_iso_def digit_def)
  have e: "filterByDateRange parse_iso ten_days None None = ten_days"
    by (simp add: filterByDateRange_def truthy_def)
  show ?thesis
    using n e ten_days_upto_second
      filterByDateRange_invalid_bound[of parse_iso "''not-a-date''" ten_days
        "Some ''2024-01-02''" "''not-a-date''" None]
    by simp
qed

section \<open>Correlation route\<close>

lemma literal_0_7: "round_binary64 (7 / 10) = 3152519739159347 / 4503599627370496"
  by (subst round_binary64_eval[where k = "- 1"]) (simp_all add: round_half_even_def powi_minus_numeral)

lemma literal_0_4: "round_binary64 (2 / 5) = 3602879701896397 / 9007199254740992"
  by (subst round_binary64_eval[where k = "- 2"]) (simp_all add: round_half_even_def powi_minus_numeral)

lemma binary64_literal_0_7: "binary64 (7 / 10) = Num (round_binary64 (7 / 10))"
  unfolding binary64_def Let_def literal_0_7 by simp

lemma binary64_literal_0_4: "binary64 (2 / 5) = Num (round_binary64 (2 / 5))"
  unfolding binary64_def Let_def literal_0_4 by simp

lemma interpretation_label_Num:
  "interpretation_label (Num r) =
     (if r \<ge> round_binary64 (7 / 10) then ''Strong positive correlation''
      else if round_binary64 (2 / 5) \<le> r \<and> r < round_binary64 (7 / 10)
        then ''Moderate positive correlation''
      else if r \<le> - round_binary64 (7 / 10) then ''Strong negative correlation''
      else if - round_binary64 (7 / 10) < r \<and> r \<le> - round_binary64 (2 / 5)
        then ''Moderate negative correlation''
      else ''Weak or no correlation'')"
  unfolding interpretation_label_def binary64_literal_0_7 binary64_literal_0_4
  by (simp add: js_ge_def js_le_def)

lemma interpretation_label_not_finite:
  "interpretation_label NaN = ''Weak or no correlation''"
  "interpretation_label Infinity = ''Strong positive correlation''"
  "interpretation_label NegInfinity = ''Strong negative correlation''"
  unfolding interpretation_label_def binary64_literal_0_7 binary64_literal_0_4
  by (simp_all add: js_ge_def js_le_def)

lemma sqrt_100: "sqrt 100 = 10"
  by (rule real_sqrt_unique) simp_all

lemma pearson_descending:
  "pearson (map Num [1, 2, 3, 4, 5]) (map Num [5, 4, 3, 2, 1]) = Num (- 1)"
  by (simp add: pearson_def pearson_sums_def pearson_step_def mean_def js_index_def js_add_def
      js_sub_def js_mul_def js_div_def math_sqrt_def eval_nat_numeral sqrt_100)

lemma correlation_route_descending:
  "correlation_route parse (Some xy_dataset) (Some ''x'') (Some ''y'') None None
   = Inr \<lparr>cr_r = Num (- 1), cr_interpretation = ''Strong negative correlation''\<rparr>"
proof -
  have x: "map (\<lambda>s. get_field s ''x'') (data xy_dataset) = map Num [1, 2, 3, 4, 5]"
    by (simp add: xy_dataset_def xy_record_def get_field_def)
  have y: "map (\<lambda>s. get_field s ''y'') (data xy_dataset) = map Num [5, 4, 3, 2, 1]"
    by (simp add: xy_dataset_def xy_record_def get_field_def)
  have p: "parameters xy_dataset = [''x'', ''y'']" by (simp add: xy_dataset_def)
  have f: "filterByDateRange parse (data xy_dataset) None None = data xy_dataset"
    by (simp add: filterByDateRange_def truthy_def)
  have i: "interpretation_label (Num (- 1)) = ''Strong negative correlation''"
    unfolding interpretation_label_Num literal_0_7 literal_0_4 by simp
  have r: "round6 (- 1) = - 1" by (simp add: round6_def)
  have ne: "data xy_dataset \<noteq> []" by (simp add: xy_dataset_def)
  show ?thesis
    unfolding correlation_route_def
    using ne by (simp add: truthy_def p f x y pearson_descending i r Let_def del: list.map)
qed

text \<open>
  C1. For every correlation coefficient \<open>r\<close> the label is chosen by a cascade in which
  the first match wins: \<open>r \<ge> 0.7\<close> strong positive, else \<open>0.4 \<le> r < 0.7\<close> moderate
  positive, else \<open>r \<le> -0.7\<close> strong negative, else \<open>-0.7 < r \<le> -0.4\<close> moderate negative,
  otherwise weak or none (NaN, which meets no comparison, included; the infinities are
  strong). The thresholds are the literals of the code, the binary64 values nearest to
  7/10 and 2/5. For \<open>x = [1, 2, 3, 4, 5]\<close> and \<open>y = [5, 4, 3, 2, 1]\<close>, \<open>pearson\<close> returns
  -1 and the route answers \<open>r = -1\<close> with "Strong negative correlation".
\<close>

theorem interpretation_cascade:
  "interpretation_label (Num r) =
     (if r \<ge> round_binary64 (7 / 10) then ''Strong positive correlation''
      else if round_binary64 (2 / 5) \<le> r \<and> r < round_binary64 (7 / 10)
        then ''Moderate positive correlation''
      else if r \<le> - round_binary64 (7 / 10) then ''Strong negative correlation''
      else if - round_binary64 (7 / 10) < r \<and> r \<le> - round_binary64 (2 / 5)
        then ''Moderate negative correlation''
      else ''Weak or no correlation'')
   \<and> round_binary64 (7 / 10) = 3152519739159347 / 4503599627370496
   \<and> round_binary64 (2 / 5) = 3602879701896397 / 9007199254740992
   \<and> interpretation_label NaN = ''Weak or no correlation''
   \<and> interpretation_label Infinity = ''Strong positive correlation''
   \<and> interpretation_label NegInfinity = ''Strong negative correlation''
   \<and> pearson (map Num [1, 2, 3, 4, 5]) (map Num [5, 4, 3, 2, 1]) = Num (- 1)
   \<and> correlation_route parse (Some xy_dataset) (Some ''x'') (Some ''y'') None None
       = Inr \<lparr>cr_r = Num (- 1), cr_interpretation = ''Strong negative correlation''\<rparr>"
  using interpretation_label_Num[of r] literal_0_7 literal_0_4 interpretation_label_not_finite
    pearson_descending correlation_route_descending[of parse]
  by (simp only: simp_thms)

theorem interpretation_cascade_witness:
  "interpretation_label (Num (- 1)) = ''Strong negative correlation''
   \<and> interpretation_label (Num (1 / 2)) = ''Moderate positive correlation''
   \<and> interpretation_label (Num (- (1 / 2))) = ''Moderate negative correlation''
   \<and> interpretation_label (Num (7 / 10)) = ''Strong positive correlation''
   \<and> interpretation_label (Num (69 / 100)) = ''Moderate positive correlation''
   \<and> interpretation_label (Num 0) = ''Weak or no correlation''"
proof -
  have v: "round_binary64 (7 / 10) = 3152519739159347 / 4503599627370496"
    "round_binary64 (2 / 5) = 3602879701896397 / 9007199254740992"
    using interpretation_cascade[of 0] by blast+
  have l: "interpretation_label (Num r) =
     (if r \<ge> round_binary64 (7 / 10) then ''Strong positive correlation''
      else if round_binary64 (2 / 5) \<le> r \<and> r < round_binary64 (7 / 10)
        then ''Moderate positive correlation''
      else if r \<le> - round_binary64 (7 / 10) then ''Strong negative correlation''
      else if - round_binary64 (7 / 10) < r \<and> r \<le> - round_binary64 (2 / 5)
        then ''Moderate negative correlation''
      else ''Weak or no correlation'')" for r
    using interpretation_cascade[of r] by blast
  show ?thesis unfolding l v by simp
qed

section \<open>Trends route\<close>

text \<open>
  C8 does not hold of the code. The trends route passes the extracted values to
  \<open>movingAverage\<close> without removing the absent ones, as the summary route does before
  it calls \<open>mean\<close>. For a record that lacks the parameter the value is \<^verbatim>\<open>undefined\<close>,
  the sum of its window is NaN, and the moving average of that trend point is NaN,
  not the average of the values that are there (1 in this dataset).
\<close>

theorem trends_route_missing_value:
  "trends_route parse (Some gap_dataset) (Some ''temperature'') (Some 7) None None
   = Inr [\<lparr>tp_date = ''2024-01-01'', tp_value = Num 1, tp_moving_average = Num 1\<rparr>,
          \<lparr>tp_date = ''2024-01-02'', tp_value = Undefined, tp_moving_average = NaN\<rparr>]"
  by (simp add: trends_route_def gap_dataset_def filterByDateRange_def truthy_def get_field_def
      movingAverage_def movingAverage_step_def window_start_def slice_def mean_def js_add_def
      js_div_def round6_def js_index_def)

end
